theory Spec2Isabelle
  imports Complex_Main "HOL-Library.Multiset"
begin

section \<open>Time: pandas timestamps, timedeltas and calendar dates\<close>

text \<open>
  A \<^verbatim>\<open>pd.Timestamp\<close> is a count of nanoseconds since the epoch, and the difference of
  two timestamps is a \<^verbatim>\<open>Timedelta\<close>, again a count of nanoseconds (possibly negative).
  A missing cell (\<^verbatim>\<open>NaT\<close>, \<^verbatim>\<open>NaN\<close>, \<^verbatim>\<open>None\<close>) is \<open>None\<close> of an option type.
  The attribute \<^verbatim>\<open>.days\<close> of a timedelta is its number of whole days rounded towards
  minus infinity, which is what \<open>div\<close> on \<open>int\<close> computes.
\<close>

type_synonym timestamp = int
type_synonym timedelta = int

definition NS_PER_DAY :: int where
  "NS_PER_DAY = 86400000000000"

definition timedelta_of_days :: "int \<Rightarrow> timedelta" where
  \<comment> \<open>\<^verbatim>\<open>timedelta(days=n)\<close>\<close>
  "timedelta_of_days n = n * NS_PER_DAY"

definition Timedelta_days :: "timedelta \<Rightarrow> int" where
  \<comment> \<open>\<^verbatim>\<open>delta.days\<close>\<close>
  "Timedelta_days delta = delta div NS_PER_DAY"

text \<open>
  The forms hand over a \<^verbatim>\<open>datetime.date\<close>. \<^verbatim>\<open>pd.Timestamp(date)\<close> is midnight of that
  day; the day number is the proleptic Gregorian ordinal of the standard library
  (\<^verbatim>\<open>date.toordinal\<close>), whose value at the epoch 1970-01-01 is 719163.
\<close>

record date =
  year :: int
  month :: nat
  day :: nat

definition is_leap :: "int \<Rightarrow> bool" where
  "is_leap y = (y mod 4 = 0 \<and> (y mod 100 \<noteq> 0 \<or> y mod 400 = 0))"

definition days_before_year :: "int \<Rightarrow> int" where
  "days_before_year y =
     (let p = y - 1 in p * 365 + p div 4 - p div 100 + p div 400)"

definition days_in_month :: "int \<Rightarrow> nat \<Rightarrow> int" where
  "days_in_month y m =
     (if m = 2 then (if is_leap y then 29 else 28)
      else if m = 4 \<or> m = 6 \<or> m = 9 \<or> m = 11 then 30 else 31)"

definition days_before_month :: "int \<Rightarrow> nat \<Rightarrow> int" where
  "days_before_month y m = sum_list (map (days_in_month y) [1..<m])"

definition toordinal :: "date \<Rightarrow> int" where
  "toordinal d =
     days_before_year (year d) + days_before_month (year d) (month d) + int (day d)"

definition Timestamp_of_date :: "date \<Rightarrow> timestamp" where
  \<comment> \<open>\<^verbatim>\<open>pd.Timestamp(d)\<close> for a \<^verbatim>\<open>datetime.date\<close>\<close>
  "Timestamp_of_date d = (toordinal d - 719163) * NS_PER_DAY"

section \<open>Device records\<close>

text \<open>
  One row of the data frame. Text cells are byte strings (the UTF-8 encoding of the
  Python text, so two cells are equal here exactly when they are equal there); a cell
  that may be empty is an option. The first group of columns is what is written to the
  spreadsheet; \<open>Center_Code\<close> and \<open>Center_Name\<close> are the two derived columns that
  \<^verbatim>\<open>load_data\<close> adds and \<^verbatim>\<open>save_data\<close> drops.
\<close>

record stored_device =
  Asset_ID :: string
  Scientific_Department :: "string option"
  Scientific_Equipment_Name :: "string option"
  Manufacturer :: "string option"
  Model :: "string option"
  Serial_No :: "string option"
  PPM_Done :: "string option"
  Installation_Date :: "timestamp option"
  Status :: "string option"
  Last_Maintenance :: "timestamp option"
  Next_Maintenance :: "timestamp option"
  Maintenance_Interval_Days :: int
  Device_Status :: string
  Priority :: string
  Notes :: "string option"

record device = stored_device +
  Center_Code :: "string option"
  Center_Name :: "string option"

section \<open>The maintenance status evaluator\<close>

text \<open>
  \<^verbatim>\<open>calculate_maintenance_status\<close> returns a pair of two text constants, a label and a
  coloured circle. The five labels and the five circles are enumerations here, named by
  what the Arabic label says: not determined, late, urgent, near, good. The clock that
  the source reads with \<^verbatim>\<open>pd.Timestamp.now()\<close> is the parameter \<open>today\<close>.
\<close>

datatype maintenance_label = Undetermined | Overdue | Urgent | Upcoming | Good

datatype status_icon = White_Circle | Red_Circle | Orange_Circle | Yellow_Circle | Green_Circle

definition calculate_maintenance_status ::
  "device \<Rightarrow> timestamp \<Rightarrow> maintenance_label \<times> status_icon" where
  "calculate_maintenance_status row today =
     (case Next_Maintenance row of
        None \<Rightarrow> (Undetermined, White_Circle)
      | Some next_maintenance \<Rightarrow>
          (let days_until = Timedelta_days (next_maintenance - today) in
           if days_until < 0 then (Overdue, Red_Circle)
           else if days_until \<le> 7 then (Urgent, Orange_Circle)
           else if days_until \<le> 30 then (Upcoming, Yellow_Circle)
           else (Good, Green_Circle)))"

section \<open>Exceptions\<close>

text \<open>
  An exception is a value. \<open>ValueError\<close> is what \<^verbatim>\<open>int\<close> and the formatting of an
  integer raise, \<open>TypeError\<close> what an assignment raises that the column cannot hold,
  \<open>StreamlitAPIException\<close> what a number input raises whose start value lies outside its
  bounds, and \<open>ChartError\<close> what the bar chart raises when it is given no data.
\<close>

datatype py_error =
    KeyError string
  | IndexError
  | ValueError
  | TypeError
  | StreamlitAPIException
  | ChartError

section \<open>Text\<close>

text \<open>
  \<^verbatim>\<open>s.split(sep)\<close> for a separator of one character (the result is never empty), and
  \<^verbatim>\<open>sep.join(parts)\<close>. The separator used is the ASCII dash, a byte that occurs in
  no longer UTF-8 sequence, so splitting the bytes splits the text.
\<close>

fun split_on :: "char \<Rightarrow> string \<Rightarrow> string list" where
  "split_on sep [] = [[]]"
| "split_on sep (c # cs) =
     (if c = sep then [] # split_on sep cs
      else (case split_on sep cs of
              [] \<Rightarrow> [[c]]
            | w # ws \<Rightarrow> (c # w) # ws))"

fun str_join :: "string \<Rightarrow> string list \<Rightarrow> string" where
  "str_join sep [] = []"
| "str_join sep [x] = x"
| "str_join sep (x # y # ys) = x @ sep @ str_join sep (y # ys)"

subsection \<open>Reading an integer\<close>

text \<open>
  \<^verbatim>\<open>int(s)\<close> works on the code points of the text. It first turns every white space
  beyond ASCII into a blank and every decimal digit of any script into its ASCII digit
  (any other character beyond ASCII into a question mark). Of the result it skips white
  space at both ends (blank, tab, line feed, vertical tab, form feed, carriage return),
  takes one sign, and reads digits that single underscores may group. Anything else
  raises \<^verbatim>\<open>ValueError\<close>, and so does a text of more digits than the interpreter
  converts (4300 unless configured otherwise; leading zeros count, underscores do not).
  \<open>None\<close> stands for the \<^verbatim>\<open>ValueError\<close>.

  The decimal digits are those of the Unicode Character Database, version 14.0: each
  script has its ten digits in a row, and \<open>decimal_zeros\<close> lists the zeros.
\<close>

definition int_max_str_digits :: nat where
  "int_max_str_digits = 4300"

definition continuation :: "char \<Rightarrow> bool" where
  "continuation c = (0x80 \<le> (of_char c :: int) \<and> (of_char c :: int) < 0xC0)"

definition low6 :: "char \<Rightarrow> int" where
  "low6 c = of_char c - 0x80"

fun utf8_run :: "nat \<Rightarrow> int \<Rightarrow> string \<Rightarrow> int list option" where
  \<comment> \<open>the bytes still owed to the code point begun, and its bits so far\<close>
  "utf8_run 0 acc [] = Some []"
| "utf8_run (Suc k) acc [] = None"
| "utf8_run 0 acc (b # bs) =
     (let n = (of_char b :: int)
      in if n < 0x80 then map_option ((#) n) (utf8_run 0 0 bs)
         else if 0xC2 \<le> n \<and> n < 0xE0 then utf8_run 1 (n - 0xC0) bs
         else if 0xE0 \<le> n \<and> n < 0xF0 then utf8_run 2 (n - 0xE0) bs
         else if 0xF0 \<le> n \<and> n < 0xF5 then utf8_run 3 (n - 0xF0) bs
         else None)"
| "utf8_run (Suc k) acc (b # bs) =
     (if continuation b
      then (if k = 0 then map_option ((#) (acc * 64 + low6 b)) (utf8_run 0 0 bs)
            else utf8_run k (acc * 64 + low6 b) bs)
      else None)"

definition utf8_decode :: "string \<Rightarrow> int list option" where
  \<comment> \<open>the code points of a text given by its UTF-8 bytes\<close>
  "utf8_decode s = utf8_run 0 0 s"

definition unicode_space :: "int \<Rightarrow> bool" where
  \<comment> \<open>the white space beyond ASCII\<close>
  "unicode_space cp =
     (cp \<in> set [0x85, 0xA0, 0x1680, 0x2028, 0x2029, 0x202F, 0x205F, 0x3000] \<or>
      (0x2000 \<le> cp \<and> cp \<le> 0x200A))"

definition decimal_zeros :: "int list" where
  "decimal_zeros =
     [0x30, 0x660, 0x6F0, 0x7C0, 0x966, 0x9E6, 0xA66, 0xAE6, 0xB66, 0xBE6, 0xC66, 0xCE6,
      0xD66, 0xDE6, 0xE50, 0xED0, 0xF20, 0x1040, 0x1090, 0x17E0, 0x1810, 0x1946, 0x19D0,
      0x1A80, 0x1A90, 0x1B50, 0x1BB0, 0x1C40, 0x1C50, 0xA620, 0xA8D0, 0xA900, 0xA9D0,
      0xA9F0, 0xAA50, 0xABF0, 0xFF10, 0x104A0, 0x10D30, 0x11066, 0x110F0, 0x11136,
      0x111D0, 0x112F0, 0x11450, 0x114D0, 0x11650, 0x116C0, 0x11730, 0x118E0, 0x11950,
      0x11C50, 0x11D50, 0x11DA0, 0x16A60, 0x16AC0, 0x16B50, 0x1D7CE, 0x1D7D8, 0x1D7E2,
      0x1D7EC, 0x1D7F6, 0x1E140, 0x1E2F0, 0x1E950, 0x1FBF0]"

definition to_decimal :: "int \<Rightarrow> int option" where
  "to_decimal cp =
     map_option (\<lambda>z. cp - z) (find (\<lambda>z. z \<le> cp \<and> cp < z + 10) decimal_zeros)"

definition to_ascii :: "int \<Rightarrow> int" where
  "to_ascii cp =
     (if cp < 127 then cp
      else if unicode_space cp then 32
      else (case to_decimal cp of Some d \<Rightarrow> 48 + d | None \<Rightarrow> 63))"

definition is_space :: "int \<Rightarrow> bool" where
  "is_space a = (a = 32 \<or> (9 \<le> a \<and> a \<le> 13))"

definition is_digit :: "int \<Rightarrow> bool" where
  "is_digit a = (48 \<le> a \<and> a \<le> 57)"

definition digit_val :: "int \<Rightarrow> int" where
  "digit_val a = a - 48"

definition strip :: "int list \<Rightarrow> int list" where
  "strip s = rev (dropWhile is_space (rev (dropWhile is_space s)))"

fun parse_digits :: "int \<Rightarrow> int list \<Rightarrow> int option" where
  "parse_digits acc [] = Some acc"
| "parse_digits acc [c] = (if is_digit c then Some (acc * 10 + digit_val c) else None)"
| "parse_digits acc (c # d # ds) =
     (if is_digit c then parse_digits (acc * 10 + digit_val c) (d # ds)
      else if c = 95 \<and> is_digit d then parse_digits (acc * 10 + digit_val d) ds
      else None)"

definition parse_unsigned :: "int list \<Rightarrow> int option" where
  "parse_unsigned s =
     (case s of
        [] \<Rightarrow> None
      | c # cs \<Rightarrow>
          if int_max_str_digits < length (filter is_digit s) then None
          else if is_digit c then parse_digits (digit_val c) cs
          else None)"

definition py_int :: "string \<Rightarrow> int option" where
  "py_int s =
     (case utf8_decode s of
        None \<Rightarrow> None
      | Some cps \<Rightarrow>
         (case strip (map to_ascii cps) of
            [] \<Rightarrow> None
          | c # cs \<Rightarrow>
              if c = 43 then parse_unsigned cs
              else if c = 45 then map_option uminus (parse_unsigned cs)
              else parse_unsigned (c # cs)))"

subsection \<open>Writing an integer\<close>

text \<open>
  Formatting an integer in decimal, and the format specifications \<^verbatim>\<open>03d\<close> (used for
  the sequence number of an asset id) and \<^verbatim>\<open>%Y-%m-%d\<close> (the text of a date).
  Formatting raises \<^verbatim>\<open>ValueError\<close> for an integer of more digits than the interpreter
  converts.
\<close>

definition digit_char :: "nat \<Rightarrow> char" where
  "digit_char n = char_of (48 + n)"

function decimal :: "nat \<Rightarrow> string" where
  "decimal n = (if n < 10 then [digit_char n] else decimal (n div 10) @ [digit_char (n mod 10)])"
  by pat_completeness auto
termination
  by (relation "measure id") auto

declare decimal.simps [simp del]

definition zfill :: "nat \<Rightarrow> string \<Rightarrow> string" where
  "zfill w s = replicate (w - length s) CHR ''0'' @ s"

definition format_0d :: "nat \<Rightarrow> int \<Rightarrow> py_error + string" where
  \<comment> \<open>\<^verbatim>\<open>f"{n:0wd}"\<close>: the sign counts in the width\<close>
  "format_0d w n =
     (let digits = decimal (nat \<bar>n\<bar>)
      in if int_max_str_digits < length digits then Inl ValueError
         else if n < 0 then Inr (CHR ''-'' # zfill (w - 1) digits)
         else Inr (zfill w digits))"

definition isoformat :: "date \<Rightarrow> string" where
  "isoformat d =
     zfill 4 (decimal (nat (year d))) @ ''-'' @ zfill 2 (decimal (month d)) @ ''-'' @
     zfill 2 (decimal (day d))"

section \<open>The table of health centers\<close>

text \<open>
  \<^verbatim>\<open>CENTERS\<close> is a list of pairs (name, code); the names are Arabic and are given by
  their UTF-8 bytes. A dictionary comprehension inserts the pairs from left to right, a
  later key replacing an earlier one.
\<close>

definition CENTERS :: "(string \<times> string) list" where
  "CENTERS = [
    ([CHR 0xD8, CHR 0xA7, CHR 0xD9, CHR 0x84, CHR 0xD8, CHR 0xAE, CHR 0xD9, CHR 0x84,
      CHR 0xD8, CHR 0xA7, CHR 0xD9, CHR 0x88, CHR 0xD9, CHR 0x8A, CHR 0xD8, CHR 0xA9],
     ''KHL-PHC''),
    ([CHR 0xD8, CHR 0xAC, CHR 0xD8, CHR 0xA8, CHR 0xD9, CHR 0x84, CHR '' '', CHR 0xD8,
      CHR 0xA7, CHR 0xD9, CHR 0x84, CHR 0xD9, CHR 0x82, CHR 0xD9, CHR 0x87, CHR 0xD8,
      CHR 0xB1],
     ''GQH-PHC''),
    ([CHR 0xD9, CHR 0x85, CHR 0xD9, CHR 0x82, CHR 0xD8, CHR 0xB2, CHR 0xD8, CHR 0xB9],
     ''MQZ-PHC''),
    ([CHR 0xD8, CHR 0xA7, CHR 0xD9, CHR 0x84, CHR 0xD9, CHR 0x82, CHR 0xD9, CHR 0x88,
      CHR 0xD8, CHR 0xA7, CHR 0xD9, CHR 0x85],
     ''QWM-PHC''),
    ([CHR 0xD8, CHR 0xA7, CHR 0xD9, CHR 0x84, CHR 0xD8, CHR 0xAC, CHR 0xD8, CHR 0xA8,
      CHR 0xD9, CHR 0x84, CHR '' '', CHR 0xD8, CHR 0xA7, CHR 0xD9, CHR 0x84, CHR 0xD8,
      CHR 0xA3, CHR 0xD8, CHR 0xB3, CHR 0xD9, CHR 0x88, CHR 0xD8, CHR 0xAF],
     ''BLM-PHC''),
    ([CHR 0xD8, CHR 0xA7, CHR 0xD9, CHR 0x84, CHR 0xD8, CHR 0xB3, CHR 0xD8, CHR 0xA7,
      CHR 0xD8, CHR 0xAF, CHR 0xD8, CHR 0xA9],
     ''SAD-PHC''),
    ([CHR 0xD8, CHR 0xA8, CHR 0xD9, CHR 0x8A, CHR 0xD8, CHR 0xB4, CHR '' '', CHR 0xD8,
      CHR 0xA7, CHR 0xD9, CHR 0x84, CHR 0xD8, CHR 0xB4, CHR 0xD9, CHR 0x85, CHR 0xD8,
      CHR 0xA7, CHR 0xD9, CHR 0x84, CHR 0xD9, CHR 0x8A],
     ''NBS-PHC''),
    ([CHR 0xD9, CHR 0x82, CHR 0xD8, CHR 0xB1, CHR 0xD9, CHR 0x8A, CHR 0xD8, CHR 0xA9,
      CHR '' '', CHR 0xD8, CHR 0xA8, CHR 0xD9, CHR 0x8A, CHR 0xD8, CHR 0xB4],
     ''VBS-PHC''),
    ([CHR 0xD8, CHR 0xA7, CHR 0xD9, CHR 0x84, CHR 0xD9, CHR 0x85, CHR 0xD8, CHR 0xAD,
      CHR 0xD9, CHR 0x84, CHR 0xD8, CHR 0xA9],
     ''MHL-PHC''),
    ([CHR 0xD8, CHR 0xA7, CHR 0xD9, CHR 0x84, CHR 0xD8, CHR 0xB9, CHR 0xD8, CHR 0xB4,
      CHR 0xD8, CHR 0xA9],
     ''ASH-PHC''),
    ([CHR 0xD8, CHR 0xA3, CHR 0xD8, CHR 0xA8, CHR 0xD9, CHR 0x88, CHR '' '', CHR 0xD8,
      CHR 0xA7, CHR 0xD9, CHR 0x84, CHR 0xD8, CHR 0xB3, CHR 0xD8, CHR 0xAF, CHR 0xD8,
      CHR 0xA7, CHR 0xD8, CHR 0xAF],
     ''ASD-PHC''),
    ([CHR 0xD8, CHR 0xA7, CHR 0xD9, CHR 0x84, CHR 0xD8, CHR 0xB9, CHR 0xD8, CHR 0xA7,
      CHR 0xD9, CHR 0x84, CHR 0xD9, CHR 0x8A, CHR 0xD8, CHR 0xA9],
     ''ALA-PHC''),
    ([CHR 0xD8, CHR 0xA7, CHR 0xD9, CHR 0x84, CHR 0xD8, CHR 0xB3, CHR 0xD9, CHR 0x84,
      CHR 0xD8, CHR 0xA7, CHR 0xD9, CHR 0x85, CHR 0xD8, CHR 0xA9],
     ''SAL-PHC''),
    ([CHR 0xD9, CHR 0x85, CHR 0xD8, CHR 0xB3, CHR 0xD9, CHR 0x84, CHR 0xD9, CHR 0x8A,
      CHR 0xD8, CHR 0xA9],
     ''MSL-PHC''),
    ([CHR 0xD8, CHR 0xB9, CHR 0xD8, CHR 0xAA, CHR 0xD9, CHR 0x88, CHR 0xD8, CHR 0xAF],
     ''ATD-PHC''),
    ([CHR 0xD8, CHR 0xA7, CHR 0xD9, CHR 0x84, CHR 0xD9, CHR 0x81, CHR 0xD8, CHR 0xB7,
      CHR 0xD9, CHR 0x8A, CHR 0xD8, CHR 0xAD, CHR 0xD8, CHR 0xA9],
     ''FTH-PHC''),
    ([CHR 0xD9, CHR 0x85, CHR 0xD9, CHR 0x86, CHR 0xD8, CHR 0xB4, CHR 0xD8, CHR 0xA8,
      CHR 0xD8, CHR 0xA9],
     ''MNS-PHC''),
    ([CHR 0xD9, CHR 0x82, CHR 0xD8, CHR 0xA7, CHR 0xD9, CHR 0x8A, CHR 0xD9, CHR 0x85,
      CHR '' '', CHR 0xD8, CHR 0xA7, CHR 0xD9, CHR 0x84, CHR 0xD8, CHR 0xAF, CHR 0xD8,
      CHR 0xB4],
     ''QDS-PHC''),
    ([CHR 0xD8, CHR 0xA7, CHR 0xD9, CHR 0x84, CHR 0xD9, CHR 0x85, CHR 0xD8, CHR 0xB7,
      CHR 0xD8, CHR 0xB9, CHR 0xD9, CHR 0x86],
     ''MTN-PHC''),
    ([CHR 0xD8, CHR 0xA7, CHR 0xD9, CHR 0x84, CHR 0xD8, CHR 0xAD, CHR 0xD9, CHR 0x82,
      CHR 0xD9, CHR 0x88],
     ''HAQ-PHC''),
    ([CHR 0xD8, CHR 0xA7, CHR 0xD9, CHR 0x84, CHR 0xD8, CHR 0xB1, CHR 0xD9, CHR 0x8A,
      CHR 0xD8, CHR 0xAB],
     ''RYT-PHC''),
    ([CHR 0xD8, CHR 0xA7, CHR 0xD9, CHR 0x84, CHR 0xD8, CHR 0xB4, CHR 0xD9, CHR 0x82,
      CHR 0xD9, CHR 0x8A, CHR 0xD9, CHR 0x82],
     ''SHQ-PHC''),
    ([CHR 0xD8, CHR 0xA7, CHR 0xD9, CHR 0x84, CHR 0xD8, CHR 0xAF, CHR 0xD8, CHR 0xB1,
      CHR 0xD8, CHR 0xA8],
     ''DRB-PHC''),
    ([CHR 0xD8, CHR 0xA8, CHR 0xD9, CHR 0x8A, CHR 0xD8, CHR 0xB4, CHR '' '', CHR 0xD8,
      CHR 0xA7, CHR 0xD9, CHR 0x84, CHR 0xD8, CHR 0xAC, CHR 0xD9, CHR 0x86, CHR 0xD9,
      CHR 0x88, CHR 0xD8, CHR 0xA8, CHR 0xD9, CHR 0x8A],
     ''SBS-PHC''),
    ([CHR 0xD8, CHR 0xB9, CHR 0xD9, CHR 0x85, CHR 0xD9, CHR 0x88, CHR 0xD8, CHR 0xAF],
     ''AMD-PHC'')]"

definition is_upper :: "char \<Rightarrow> bool" where
  "is_upper c = (c \<in> set ''ABCDEFGHIJKLMNOPQRSTUVWXYZ'')"

definition code_shape :: "string \<Rightarrow> bool" where
  \<comment> \<open>three capital letters, then \<^verbatim>\<open>-PHC\<close>\<close>
  "code_shape code =
     (length code = 7 \<and> list_all is_upper (take 3 code) \<and> drop 3 code = ''-PHC'')"

definition dict_of :: "('k \<times> 'v) list \<Rightarrow> ('k \<rightharpoonup> 'v)" where
  "dict_of kvs = foldl (\<lambda>m (k, v). m(k \<mapsto> v)) Map.empty kvs"

definition CENTERS_DICT :: "string \<rightharpoonup> string" where
  \<comment> \<open>code to name\<close>
  "CENTERS_DICT = dict_of (map (\<lambda>(name, code). (code, name)) CENTERS)"

definition CENTERS_DICT_REV :: "string \<rightharpoonup> string" where
  \<comment> \<open>name to code\<close>
  "CENTERS_DICT_REV = dict_of (map (\<lambda>(name, code). (name, code)) CENTERS)"

section \<open>The session: data frame, backing file, messages\<close>

text \<open>
  The data frame of the session is the list of its rows, in order. Row labels are
  unique throughout (a fresh range after loading, restoring and adding; deleting only
  removes labels), so a label stands for one position.

  The columns are typed as \<^verbatim>\<open>load_data\<close> types them, with one exception that the rows
  do not show. A \<open>Notes\<close> column that is in the file with every cell empty is read as a
  column of floats, and a column of floats takes no text: from version 3 on pandas
  raises \<^verbatim>\<open>TypeError\<close> at such an assignment, while earlier versions warn and widen
  the column. The session therefore carries the dtype of its \<open>Notes\<close> column, and the
  handler that assigns to the column takes the behaviour of pandas as its parameter
  \<open>strict\<close>.

  The spreadsheet writer and reader are outside the program. Writing is a parameter
  \<open>to_excel\<close> that takes the rows and the file system and returns the exception it
  raised, if any, with the file system it left. The outcome of reading is a value:
  the exception raised, or the rows read. An exception of the reader or writer is known
  by its message.

  What the program shows to the user is a list of notices, each one of the message
  templates of the source; \<^verbatim>\<open>st.rerun()\<close> sets a flag.
\<close>

type_synonym exn = string

datatype dtype = Float64 | Object

datatype message =
    Load_failed exn
  | No_data
  | Save_data_failed exn
  | Device_added string
  | Save_failed
  | Required_fields_missing
  | Maintenance_logged timestamp
  | Interval_updated nat
  | Restore_done
  | Restore_failed exn

datatype notice = St_error message | St_success message

record 'fs app_state =
  session_df :: "device list"
  Notes_dtype :: dtype
  fs :: 'fs
  notices :: "notice list"
  rerun :: bool

type_synonym 'fs excel_writer = "stored_device list \<Rightarrow> 'fs \<Rightarrow> exn option \<times> 'fs"

definition st_error :: "message \<Rightarrow> 'fs app_state \<Rightarrow> 'fs app_state" where
  "st_error m st = st\<lparr>notices := notices st @ [St_error m]\<rparr>"

definition st_success :: "message \<Rightarrow> 'fs app_state \<Rightarrow> 'fs app_state" where
  "st_success m st = st\<lparr>notices := notices st @ [St_success m]\<rparr>"

definition st_rerun :: "'fs app_state \<Rightarrow> 'fs app_state" where
  "st_rerun st = st\<lparr>rerun := True\<rparr>"

definition inferred_Notes_dtype :: "'a stored_device_scheme list \<Rightarrow> dtype" where
  \<comment> \<open>the dtype that reading gives the column: floats when it has rows and no text\<close>
  "inferred_Notes_dtype rows =
     (if rows \<noteq> [] \<and> list_all (\<lambda>r. Notes r = None) rows then Float64 else Object)"

subsection \<open>Loading and saving\<close>

definition center_code_of :: "string \<Rightarrow> string" where
  \<comment> \<open>\<^verbatim>\<open>.str.split('-').str[0:2].str.join('-')\<close>\<close>
  "center_code_of asset_id = str_join ''-'' (take 2 (split_on CHR ''-'' asset_id))"

definition add_center_columns :: "stored_device \<Rightarrow> device" where
  "add_center_columns r =
     (let code = center_code_of (Asset_ID r)
      in stored_device.extend r
           \<lparr> Center_Code = Some code, Center_Name = CENTERS_DICT code \<rparr>)"

definition load_data :: "exn + stored_device list \<Rightarrow> 'fs app_state \<Rightarrow>
    device list option \<times> 'fs app_state" where
  \<comment> \<open>the argument is the outcome of reading the file, its missing columns filled in\<close>
  "load_data read_excel st =
     (case read_excel of
        Inr rows \<Rightarrow> (Some (map add_center_columns rows), st)
      | Inl e \<Rightarrow> (None, st_error (Load_failed e) st))"

definition start_session :: "exn + stored_device list \<Rightarrow> 'fs app_state \<Rightarrow> 'fs app_state" where
  \<comment> \<open>the first run of \<^verbatim>\<open>main\<close>: the loaded frame becomes the frame of the session\<close>
  "start_session read_excel st =
     (case load_data read_excel st of
        (Some df, st') \<Rightarrow> st'\<lparr>session_df := df, Notes_dtype := inferred_Notes_dtype df\<rparr>
      | (None, st') \<Rightarrow> st_error No_data st')"

definition save_data :: "'fs excel_writer \<Rightarrow> device list \<Rightarrow> 'fs app_state \<Rightarrow>
    bool \<times> 'fs app_state" where
  "save_data to_excel df st =
     (let df_to_save = map stored_device.truncate df
      in case to_excel df_to_save (fs st) of
           (None, fs') \<Rightarrow> (True, st\<lparr>fs := fs'\<rparr>)
         | (Some e, fs') \<Rightarrow> (False, st_error (Save_data_failed e) (st\<lparr>fs := fs'\<rparr>)))"

subsection \<open>Adding a device: the next asset id\<close>




definition existing_ids :: "device list \<Rightarrow> string \<Rightarrow> string list" where
  \<comment> \<open>\<^verbatim>\<open>df[df['Center_Code'] == center_code]['Asset ID'].tolist()\<close>\<close>
  "existing_ids df center_code =
     map Asset_ID (filter (\<lambda>r. Center_Code r = Some center_code) df)"

definition scan_max_num :: "string list \<Rightarrow> int" where
  \<comment> \<open>the loop with \<^verbatim>\<open>try: ... except: pass\<close>\<close>
  "scan_max_num ids =
     foldl (\<lambda>max_num asset_id.
              case py_int (last (split_on CHR ''-'' asset_id)) of
                Some num \<Rightarrow> max max_num num
              | None \<Rightarrow> max_num)
           0 ids"

definition new_asset_id :: "string \<Rightarrow> device list \<Rightarrow> py_error + string" where
  \<comment> \<open>the formatting stands after the loop, outside its \<^verbatim>\<open>try\<close>\<close>
  "new_asset_id center_code df =
     (case format_0d 3 (scan_max_num (existing_ids df center_code) + 1) of
        Inl e \<Rightarrow> Inl e
      | Inr number \<Rightarrow> Inr (center_code @ ''-'' @ number))"






subsection \<open>Logging a maintenance\<close>

text \<open>
  The block of the second tab of the maintenance page, on the run in which its form is
  submitted. Before the form is read the block looks the chosen device up and draws the
  form, whose number input starts at the interval stored for the device and raises when
  that lies outside the bounds 7 and 365. The handler then assigns to four columns of
  the row, then to \<open>Notes\<close>, and saves. An exception ends the run where it is raised:
  what was assigned before stays in the session. The result is the exception raised, if
  any, and the session left.
\<close>

record maintenance_form =
  maintenance_date :: date
  maintenance_type :: string
  technician :: string
  maintenance_notes :: string
  parts_replaced :: string
  device_status_after :: string
  next_maintenance_interval :: int

fun first_index :: "('a \<Rightarrow> bool) \<Rightarrow> 'a list \<Rightarrow> nat option" where
  \<comment> \<open>\<^verbatim>\<open>df[mask].index[0]\<close>; \<open>None\<close> where the source raises \<^verbatim>\<open>IndexError\<close>\<close>
  "first_index P [] = None"
| "first_index P (x # xs) = (if P x then Some 0 else map_option Suc (first_index P xs))"

definition new_note :: "maintenance_form \<Rightarrow> string" where
  "new_note form =
     CHR 0x0A # ''['' @ isoformat (maintenance_date form) @ ''] '' @ maintenance_type form @
     '' - '' @ technician form @ '': '' @ maintenance_notes form"

definition log_maintenance_columns :: "maintenance_form \<Rightarrow> device \<Rightarrow> device" where
  \<comment> \<open>the assignments to the two dates, the status and the interval\<close>
  "log_maintenance_columns form device =
     device
       \<lparr> Last_Maintenance := Some (Timestamp_of_date (maintenance_date form)),
         Next_Maintenance := Some (Timestamp_of_date (maintenance_date form)
                                   + timedelta_of_days (next_maintenance_interval form)),
         Device_Status := device_status_after form,
         Maintenance_Interval_Days := next_maintenance_interval form \<rparr>"

definition log_maintenance_note :: "maintenance_form \<Rightarrow> device \<Rightarrow> device" where
  \<comment> \<open>the assignment to \<open>Notes\<close>\<close>
  "log_maintenance_note form device =
     (let current_notes = (case Notes device of Some s \<Rightarrow> s | None \<Rightarrow> [])
      in device\<lparr>Notes := Some (current_notes @ new_note form)\<rparr>)"

definition log_maintenance_row :: "maintenance_form \<Rightarrow> device \<Rightarrow> device" where
  "log_maintenance_row form device =
     log_maintenance_note form (log_maintenance_columns form device)"

definition log_maintenance_submit :: "bool \<Rightarrow> 'fs excel_writer \<Rightarrow> string \<Rightarrow>
    maintenance_form \<Rightarrow> 'fs app_state \<Rightarrow> py_error option \<times> 'fs app_state" where
  \<comment> \<open>nothing is shown, and nothing done, for an empty choice of asset id\<close>
  "log_maintenance_submit strict to_excel asset_id form st =
     (if asset_id = [] then (None, st)
      else
       (case first_index (\<lambda>r. Asset_ID r = asset_id) (session_df st) of
          None \<Rightarrow> (Some IndexError, st)
        | Some idx \<Rightarrow>
           (let df = session_df st; device = df ! idx
            in if Maintenance_Interval_Days device < 7 \<or> 365 < Maintenance_Interval_Days device
               then (Some StreamlitAPIException, st)
               else
                (let st1 = st\<lparr>session_df := df[idx := log_maintenance_columns form device]\<rparr>
                 in if strict \<and> Notes_dtype st = Float64 then (Some TypeError, st1)
                    else
                     (let st2 = st1\<lparr>session_df := df[idx := log_maintenance_row form device],
                                    Notes_dtype := Object\<rparr>
                      in case save_data to_excel (session_df st2) st2 of
                           (True, st3) \<Rightarrow>
                             (None, st_rerun (st_success
                                (Maintenance_logged (Timestamp_of_date (maintenance_date form)
                                   + timedelta_of_days (next_maintenance_interval form))) st3))
                         | (False, st3) \<Rightarrow> (None, st_error Save_failed st3))))))"

subsection \<open>Settings: one interval for an equipment type, and restoring a backup\<close>

definition set_interval :: "string \<Rightarrow> int \<Rightarrow> device list \<Rightarrow> device list" where
  \<comment> \<open>\<^verbatim>\<open>df.loc[mask, 'Maintenance_Interval_Days'] = new_interval\<close>\<close>
  "set_interval selected_equipment new_interval df =
     map (\<lambda>r. if Scientific_Equipment_Name r = Some selected_equipment
               then r\<lparr>Maintenance_Interval_Days := new_interval\<rparr> else r) df"

definition masked_index :: "string \<Rightarrow> device list \<Rightarrow> nat list" where
  \<comment> \<open>\<^verbatim>\<open>df[mask].index\<close>\<close>
  "masked_index selected_equipment df =
     filter (\<lambda>i. Scientific_Equipment_Name (df ! i) = Some selected_equipment) [0..<length df]"

definition reschedule_at :: "int \<Rightarrow> device list \<Rightarrow> nat \<Rightarrow> device list" where
  \<comment> \<open>the body of the loop over the masked rows\<close>
  "reschedule_at new_interval df idx =
     (case Last_Maintenance (df ! idx) of
        Some last_maint \<Rightarrow>
          df[idx := (df ! idx)\<lparr>Next_Maintenance :=
                                 Some (last_maint + timedelta_of_days new_interval)\<rparr>]
      | None \<Rightarrow> df)"

definition reschedule :: "int \<Rightarrow> device \<Rightarrow> device" where
  \<comment> \<open>what one turn of the loop does to its row\<close>
  "reschedule new_interval r =
     (case Last_Maintenance r of
        Some last_maint \<Rightarrow>
          r\<lparr>Next_Maintenance := Some (last_maint + timedelta_of_days new_interval)\<rparr>
      | None \<Rightarrow> r)"

definition apply_interval :: "string \<Rightarrow> int \<Rightarrow> device list \<Rightarrow> device list" where
  "apply_interval selected_equipment new_interval df =
     foldl (reschedule_at new_interval)
       (set_interval selected_equipment new_interval df)
       (masked_index selected_equipment df)"


definition restore_submit :: "exn + device list \<Rightarrow> 'fs app_state \<Rightarrow> 'fs app_state" where
  \<comment> \<open>the argument is the outcome of \<^verbatim>\<open>pd.read_excel(uploaded_backup)\<close>\<close>
  "restore_submit read_excel st =
     (case read_excel of
        Inr restored_df \<Rightarrow>
          st_rerun (st_success Restore_done
            (st\<lparr>session_df := restored_df, Notes_dtype := inferred_Notes_dtype restored_df\<rparr>))
      | Inl e \<Rightarrow> st_error (Restore_failed e) st)"

subsection \<open>The dashboard\<close>

text \<open>
  \<^verbatim>\<open>show_dashboard\<close> reads the clock anew in each comparison; the readings of one
  rendering are taken as the one instant \<open>now\<close>. The four metrics are shown first. The
  bar chart of the centers comes next and raises when no row left by the filters has a
  center name; the table of urgent devices is built after the charts, so it is there
  only when the chart was drawn. \<^verbatim>\<open>sort_values\<close> is the sort of the library, a
  parameter: it orders by date, and the order it gives to equal dates is its own.
\<close>

definition status_working :: string where
  "status_working = [CHR 0xD8, CHR 0xB9, CHR 0xD8, CHR 0xA7, CHR 0xD9, CHR 0x85, CHR 0xD9, CHR 0x84]"

definition status_broken :: string where
  "status_broken = [CHR 0xD9, CHR 0x85, CHR 0xD8, CHR 0xB9, CHR 0xD8, CHR 0xB7, CHR 0xD9, CHR 0x84]"

definition isin :: "'a option \<Rightarrow> 'a list \<Rightarrow> bool" where
  "isin cell vs = (case cell of None \<Rightarrow> False | Some v \<Rightarrow> v \<in> set vs)"

record dashboard_filters =
  selected_centers :: "string list"
  selected_departments :: "string list"
  status_filter :: "string list"

definition apply_filters :: "dashboard_filters \<Rightarrow> device list \<Rightarrow> device list" where
  "apply_filters flt df =
     (let d1 = (if selected_centers flt \<noteq> []
                then filter (\<lambda>r. isin (Center_Name r) (selected_centers flt)) df else df);
          d2 = (if selected_departments flt \<noteq> []
                then filter (\<lambda>r. isin (Scientific_Department r) (selected_departments flt)) d1
                else d1)
      in if status_filter flt \<noteq> []
         then filter (\<lambda>r. Device_Status r \<in> set (status_filter flt)) d2 else d2)"

definition overdue_rows :: "timestamp \<Rightarrow> device list \<Rightarrow> device list" where
  "overdue_rows now df_filtered =
     filter (\<lambda>r. case Next_Maintenance r of None \<Rightarrow> False | Some t \<Rightarrow> t < now) df_filtered"

definition urgent_rows :: "timestamp \<Rightarrow> device list \<Rightarrow> device list" where
  \<comment> \<open>the rows counted by the metric of urgent maintenances\<close>
  "urgent_rows now df_filtered =
     filter (\<lambda>r. case Next_Maintenance r of
                   None \<Rightarrow> False
                 | Some t \<Rightarrow> Timedelta_days (t - now) \<le> 7 \<and> now \<le> t) df_filtered"

definition next_maintenance_key :: "device \<Rightarrow> timestamp" where
  \<comment> \<open>the sort key; the rows sorted all have the cell\<close>
  "next_maintenance_key r = (case Next_Maintenance r of Some t \<Rightarrow> t | None \<Rightarrow> 0)"

definition sorts_by_next :: "(device list \<Rightarrow> device list) \<Rightarrow> bool" where
  \<comment> \<open>what is known of \<^verbatim>\<open>sort_values('Next_Maintenance')\<close>: the same rows, in order of date\<close>
  "sorts_by_next sort_values =
     (\<forall>xs. mset (sort_values xs) = mset xs \<and>
           sorted (map next_maintenance_key (sort_values xs)))"

definition urgent_devices :: "(device list \<Rightarrow> device list) \<Rightarrow> timestamp \<Rightarrow> device list \<Rightarrow>
    device list" where
  \<comment> \<open>the devices that need maintenance at once, before \<^verbatim>\<open>head(10)\<close>\<close>
  "urgent_devices sort_values now df_filtered =
     sort_values
       (filter (\<lambda>r. case Next_Maintenance r of
                       None \<Rightarrow> False
                     | Some t \<Rightarrow> Timedelta_days (t - now) \<le> 7) df_filtered)"

record dashboard =
  total_devices :: nat
  overdue :: nat
  urgent :: nat
  broken :: nat
  urgent_table :: "py_error + device list"

definition show_dashboard :: "(device list \<Rightarrow> device list) \<Rightarrow> dashboard_filters \<Rightarrow>
    timestamp \<Rightarrow> device list \<Rightarrow> dashboard" where
  "show_dashboard sort_values flt now df =
     (let df_filtered = apply_filters flt df
      in \<lparr> total_devices = length df_filtered,
            overdue = length (overdue_rows now df_filtered),
            urgent = length (urgent_rows now df_filtered),
            broken = length (filter (\<lambda>r. Device_Status r = status_broken) df_filtered),
            urgent_table =
              (if list_all (\<lambda>r. Center_Name r = None) df_filtered then Inl ChartError
               else Inr (take 10 (urgent_devices sort_values now df_filtered))) \<rparr>)"

subsection \<open>A call of the evaluator\<close>

text \<open>
  What a call of \<^verbatim>\<open>calculate_maintenance_status\<close> can reach: the clock it reads, the row
  object it is handed, and the data frame of the session. The call takes this state and
  returns its result with the state it leaves.
\<close>

record call_state =
  the_clock :: timestamp
  the_row :: device
  the_session :: "device list"

definition call_calculate_maintenance_status ::
  "call_state \<Rightarrow> (maintenance_label \<times> status_icon) \<times> call_state" where
  "call_calculate_maintenance_status s =
     (let today = the_clock s
      in (calculate_maintenance_status (the_row s) today, s))"

section \<open>Example data\<close>

text \<open>
  A centrifuge of the first center of the table, as loaded from a sheet that has a
  column of next maintenance dates and no column of notes.
\<close>

definition priority_medium :: string where
  "priority_medium = [CHR 0xD9, CHR 0x85, CHR 0xD8, CHR 0xAA, CHR 0xD9, CHR 0x88, CHR 0xD8, CHR 0xB3, CHR 0xD8, CHR 0xB7]"

definition type_calibration :: string where
  "type_calibration = [CHR 0xD9, CHR 0x85, CHR 0xD8, CHR 0xB9, CHR 0xD8, CHR 0xA7, CHR 0xD9, CHR 0x8A, CHR 0xD8, CHR 0xB1, CHR 0xD8, CHR 0xA9]"

definition example_device :: device where
  "example_device =
     \<lparr> Asset_ID = ''KHL-PHC-001'',
       Scientific_Department = Some ''Laboratory'',
       Scientific_Equipment_Name = Some ''Centrifuge'',
       Manufacturer = None, Model = None, Serial_No = None, PPM_Done = None,
       Installation_Date = Some 0, Status = None,
       Last_Maintenance = None,
       Next_Maintenance = Some (20 * 86400000000000),
       Maintenance_Interval_Days = 90,
       Device_Status = status_working, Priority = priority_medium, Notes = Some [],
       Center_Code = Some ''KHL-PHC'', Center_Name = Some (fst (hd CENTERS)) \<rparr>"

text \<open>
  A file system that holds the rows last written, a writer that succeeds and one that
  fails as a locked or read-only file does, the session before anything is loaded, and
  a session of one device.
\<close>

type_synonym example_fs = "stored_device list option"

definition ok_writer :: "example_fs excel_writer" where
  "ok_writer rows f = (None, Some rows)"


definition blank_state :: "example_fs app_state" where
  "blank_state =
     \<lparr> session_df = [], Notes_dtype = Object, fs = None, notices = [], rerun = False \<rparr>"

definition example_state :: "example_fs app_state" where
  "example_state =
     \<lparr> session_df = [example_device], Notes_dtype = Object, fs = None, notices = [],
       rerun = False \<rparr>"

text \<open>
  The same device loaded from a sheet whose column of notes is there and empty.
\<close>

definition empty_notes_state :: "example_fs app_state" where
  "empty_notes_state =
     \<lparr> session_df = [example_device\<lparr>Notes := None\<rparr>], Notes_dtype = Float64, fs = None,
       notices = [], rerun = False \<rparr>"

definition example_maintenance_form :: maintenance_form where
  "example_maintenance_form =
     \<lparr> maintenance_date = \<lparr> year = 2024, month = 3, day = 9 \<rparr>,
       maintenance_type = type_calibration,
       technician = ''Sami'',
       maintenance_notes = ''ok'',
       parts_replaced = [],
       device_status_after = status_working,
       next_maintenance_interval = 30 \<rparr>"








text \<open>
  A device whose maintenance was due one nanosecond before time 0, and the filters the
  dashboard starts with.
\<close>

definition overdue_device :: device where
  "overdue_device = example_device\<lparr>Next_Maintenance := Some (- 1)\<rparr>"

definition default_filters :: dashboard_filters where
  "default_filters =
     \<lparr> selected_centers = [], selected_departments = [], status_filter = [status_working] \<rparr>"


text \<open>Two devices whose maintenance is due 20 and 25 days after time 0.\<close>

definition due_in_25_days :: device where
  "due_in_25_days = example_device\<lparr>Next_Maintenance := Some (25 * 86400000000000)\<rparr>"

text \<open>
  A call of the evaluator at time 0 on the example device, within a session that holds
  it, and a call on another device with the same date of next maintenance.
\<close>

definition example_call :: call_state where
  "example_call = \<lparr> the_clock = 0, the_row = example_device, the_session = [example_device] \<rparr>"

definition other_call :: call_state where
  "other_call =
     \<lparr> the_clock = 0,
       the_row = example_device\<lparr>Asset_ID := ''KHL-PHC-002'', Notes := None\<rparr>,
       the_session = [] \<rparr>"

section \<open>Properties of the evaluator\<close>

lemma NS_PER_DAY_pos: "0 < NS_PER_DAY"
  by (simp add: NS_PER_DAY_def)

lemma Timedelta_days_floor:
  "Timedelta_days delta = \<lfloor>real_of_int delta / real_of_int NS_PER_DAY\<rfloor>"
  by (simp add: Timedelta_days_def floor_divide_of_int_eq)


text \<open>
  C1. The evaluator returns the label Undetermined when \<open>Next_Maintenance\<close> is absent.
  Otherwise, with \<open>d\<close> the floor of \<open>(next_maintenance - now)\<close> in days, the label is
  Overdue exactly when \<open>d < 0\<close>, Urgent exactly when \<open>0 \<le> d \<le> 7\<close>, Upcoming exactly when
  \<open>8 \<le> d \<le> 30\<close> and Good exactly when \<open>d > 30\<close>; it is never Undetermined then. The four
  ranges cover the integers and are disjoint, so exactly one label applies.
\<close>

theorem calculate_maintenance_status_labels:
  "(Next_Maintenance row = None \<longrightarrow>
      fst (calculate_maintenance_status row now) = Undetermined) \<and>
   (\<forall>t. Next_Maintenance row = Some t \<longrightarrow>
      (let d = \<lfloor>real_of_int (t - now) / real_of_int NS_PER_DAY\<rfloor>;
           l = fst (calculate_maintenance_status row now)
       in (l = Overdue \<longleftrightarrow> d < 0) \<and>
          (l = Urgent \<longleftrightarrow> 0 \<le> d \<and> d \<le> 7) \<and>
          (l = Upcoming \<longleftrightarrow> 8 \<le> d \<and> d \<le> 30) \<and>
          (l = Good \<longleftrightarrow> 30 < d) \<and>
          l \<noteq> Undetermined))"
proof -
  have absent: "Next_Maintenance row = None \<longrightarrow>
      fst (calculate_maintenance_status row now) = Undetermined"
    by (simp add: calculate_maintenance_status_def)
  have present: "\<And>t. Next_Maintenance row = Some t \<Longrightarrow>
      (let d = \<lfloor>real_of_int (t - now) / real_of_int NS_PER_DAY\<rfloor>;
           l = fst (calculate_maintenance_status row now)
       in (l = Overdue \<longleftrightarrow> d < 0) \<and>
          (l = Urgent \<longleftrightarrow> 0 \<le> d \<and> d \<le> 7) \<and>
          (l = Upcoming \<longleftrightarrow> 8 \<le> d \<and> d \<le> 30) \<and>
          (l = Good \<longleftrightarrow> 30 < d) \<and>
          l \<noteq> Undetermined)"
  proof -
    fix t
    assume t: "Next_Maintenance row = Some t"
    have d: "\<lfloor>real_of_int (t - now) / real_of_int NS_PER_DAY\<rfloor> = Timedelta_days (t - now)"
      by (simp only: Timedelta_days_floor)
    show "(let d = \<lfloor>real_of_int (t - now) / real_of_int NS_PER_DAY\<rfloor>;
           l = fst (calculate_maintenance_status row now)
       in (l = Overdue \<longleftrightarrow> d < 0) \<and>
          (l = Urgent \<longleftrightarrow> 0 \<le> d \<and> d \<le> 7) \<and>
          (l = Upcoming \<longleftrightarrow> 8 \<le> d \<and> d \<le> 30) \<and>
          (l = Good \<longleftrightarrow> 30 < d) \<and>
          l \<noteq> Undetermined)"
      unfolding d by (simp add: calculate_maintenance_status_def t Let_def)
  qed
  from absent present show ?thesis by blast
qed

theorem calculate_maintenance_status_labels_witness:
  "Next_Maintenance example_device = Some (20 * 86400000000000) \<and>
   fst (calculate_maintenance_status example_device 0) = Upcoming \<and>
   fst (calculate_maintenance_status (example_device\<lparr>Next_Maintenance := None\<rparr>) 0)
     = Undetermined"
proof -
  have t: "Next_Maintenance example_device = Some (20 * 86400000000000)"
    by (simp add: example_device_def)
  have d: "\<lfloor>real_of_int (20 * 86400000000000 - 0) / real_of_int NS_PER_DAY\<rfloor> = 20"
    by (simp add: NS_PER_DAY_def)
  have "let d = \<lfloor>real_of_int (20 * 86400000000000 - 0) / real_of_int NS_PER_DAY\<rfloor>;
           l = fst (calculate_maintenance_status example_device 0)
       in (l = Overdue \<longleftrightarrow> d < 0) \<and>
          (l = Urgent \<longleftrightarrow> 0 \<le> d \<and> d \<le> 7) \<and>
          (l = Upcoming \<longleftrightarrow> 8 \<le> d \<and> d \<le> 30) \<and>
          (l = Good \<longleftrightarrow> 30 < d) \<and>
          l \<noteq> Undetermined"
    using calculate_maintenance_status_labels [of example_device 0] t by blast
  then have "fst (calculate_maintenance_status example_device 0) = Upcoming"
    unfolding Let_def d by simp
  moreover have "fst (calculate_maintenance_status
      (example_device\<lparr>Next_Maintenance := None\<rparr>) 0) = Undetermined"
    using calculate_maintenance_status_labels
      [of "example_device\<lparr>Next_Maintenance := None\<rparr>" 0]
    by simp
  ultimately show ?thesis using t by simp
qed

text \<open>
  C2 (as amended). A call of the evaluator returns a label with its circle, one of five
  pairs, and leaves the clock, the row and the session as they were; a second call in
  the state the first one left returns the same pair; the pair is decided by the date of
  next maintenance of the row and the clock alone. The days until due are not part of
  the result.
\<close>

theorem call_calculate_maintenance_status_pure:
  "case call_calculate_maintenance_status s of
     (res, s1) \<Rightarrow>
       (case call_calculate_maintenance_status s1 of
          (res', s2) \<Rightarrow>
            res' = res \<and> s1 = s \<and> s2 = s \<and>
            res = calculate_maintenance_status (the_row s) (the_clock s) \<and>
            res \<in> {(Undetermined, White_Circle), (Overdue, Red_Circle),
                    (Urgent, Orange_Circle), (Upcoming, Yellow_Circle),
                    (Good, Green_Circle)} \<and>
            (\<forall>s'. Next_Maintenance (the_row s') = Next_Maintenance (the_row s) \<and>
                  the_clock s' = the_clock s \<longrightarrow>
                  fst (call_calculate_maintenance_status s') = res))"
proof -
  have five: "calculate_maintenance_status row today \<in>
      {(Undetermined, White_Circle), (Overdue, Red_Circle), (Urgent, Orange_Circle),
       (Upcoming, Yellow_Circle), (Good, Green_Circle)}" for row today
    by (simp add: calculate_maintenance_status_def Let_def split: option.split)
  have dep: "\<forall>s'. Next_Maintenance (the_row s') = Next_Maintenance (the_row s) \<and>
        the_clock s' = the_clock s \<longrightarrow>
      fst (call_calculate_maintenance_status s')
        = calculate_maintenance_status (the_row s) (the_clock s)"
    by (simp add: call_calculate_maintenance_status_def calculate_maintenance_status_def)
  have call: "call_calculate_maintenance_status s
      = (calculate_maintenance_status (the_row s) (the_clock s), s)"
    by (simp add: call_calculate_maintenance_status_def)
  show ?thesis
    unfolding call prod.case using five [of "the_row s" "the_clock s"] dep
    by (intro conjI) (rule refl | assumption)+
qed

theorem call_calculate_maintenance_status_pure_witness:
  "Next_Maintenance (the_row other_call) = Next_Maintenance (the_row example_call) \<and>
   the_clock other_call = the_clock example_call \<and>
   the_row other_call \<noteq> the_row example_call \<and>
   call_calculate_maintenance_status example_call = ((Upcoming, Yellow_Circle), example_call) \<and>
   fst (call_calculate_maintenance_status other_call) = (Upcoming, Yellow_Circle)"
proof -
  have same: "Next_Maintenance (the_row other_call) = Next_Maintenance (the_row example_call)"
    "the_clock other_call = the_clock example_call"
    by (simp_all add: other_call_def example_call_def)
  have differ: "the_row other_call \<noteq> the_row example_call"
    by (simp add: other_call_def example_call_def example_device_def)
  have res: "calculate_maintenance_status (the_row example_call) (the_clock example_call)
      = (Upcoming, Yellow_Circle)"
    by (simp add: example_call_def example_device_def calculate_maintenance_status_def
          Timedelta_days_def NS_PER_DAY_def Let_def)
  obtain r s1 where c: "call_calculate_maintenance_status example_call = (r, s1)"
    by (cases "call_calculate_maintenance_status example_call")
  obtain r' s2 where c': "call_calculate_maintenance_status s1 = (r', s2)"
    by (cases "call_calculate_maintenance_status s1")
  from call_calculate_maintenance_status_pure [of example_call] c c'
  have p: "s1 = example_call" "r = calculate_maintenance_status (the_row example_call)
        (the_clock example_call)"
    "\<forall>s'. Next_Maintenance (the_row s') = Next_Maintenance (the_row example_call) \<and>
          the_clock s' = the_clock example_call \<longrightarrow>
          fst (call_calculate_maintenance_status s') = r"
    by simp_all
  from p(3) same have "fst (call_calculate_maintenance_status other_call) = r" by blast
  with p(1,2) c res same differ show ?thesis by simp
qed

text \<open>
  The claim as it was written has the days until due in the result. Two devices due in
  20 and in 25 days get the same result, the label Upcoming with its yellow circle: the
  days until due cannot be read from it.
\<close>

theorem calculate_maintenance_status_counterexample:
  "Next_Maintenance example_device = Some (20 * NS_PER_DAY) \<and>
   Next_Maintenance due_in_25_days = Some (25 * NS_PER_DAY) \<and>
   Timedelta_days (20 * NS_PER_DAY - 0) = 20 \<and>
   Timedelta_days (25 * NS_PER_DAY - 0) = 25 \<and>
   calculate_maintenance_status example_device 0 = (Upcoming, Yellow_Circle) \<and>
   calculate_maintenance_status due_in_25_days 0 = (Upcoming, Yellow_Circle) \<and>
   calculate_maintenance_status example_device 0 = calculate_maintenance_status due_in_25_days 0"
  by (simp add: example_device_def due_in_25_days_def calculate_maintenance_status_def
        Timedelta_days_def NS_PER_DAY_def Let_def)

section \<open>Logging a maintenance\<close>

lemma first_index_SomeD:
  "first_index P xs = Some i \<Longrightarrow> i < length xs \<and> P (xs ! i) \<and> (\<forall>j<i. \<not> P (xs ! j))"
proof (induction xs arbitrary: i)
  case Nil
  then show ?case by simp
next
  case (Cons x xs)
  show ?case
  proof (cases "P x")
    case True
    with Cons.prems show ?thesis by simp
  next
    case False
    with Cons.prems obtain k where k: "first_index P xs = Some k" "i = Suc k"
      by auto
    from Cons.IH [OF k(1)] False k(2) show ?thesis
      by (auto simp: less_Suc_eq_0_disj)
  qed
qed

lemma first_index_None_iff: "first_index P xs = None \<longleftrightarrow> (\<forall>x \<in> set xs. \<not> P x)"
  by (induction xs) auto

lemma save_data_cases:
  "save_data to_excel df st =
     (case to_excel (map stored_device.truncate df) (fs st) of
        (None, fs') \<Rightarrow> (True, st\<lparr>fs := fs'\<rparr>)
      | (Some e, fs') \<Rightarrow>
          (False, st\<lparr>fs := fs', notices := notices st @ [St_error (Save_data_failed e)]\<rparr>))"
  by (simp add: save_data_def st_error_def Let_def split: prod.splits option.splits)

lemma save_data_session_df [simp]:
  "session_df (snd (save_data to_excel df st)) = session_df st"
  by (simp add: save_data_cases split: prod.splits option.splits)

lemma log_maintenance_submit_raises:
  assumes "asset_id \<noteq> []"
    and "first_index (\<lambda>r. Asset_ID r = asset_id) (session_df st) = Some idx"
    and "7 \<le> Maintenance_Interval_Days (session_df st ! idx)"
    and "Maintenance_Interval_Days (session_df st ! idx) \<le> 365"
    and "strict \<and> Notes_dtype st = Float64"
  shows "log_maintenance_submit strict to_excel asset_id form st =
     (Some TypeError,
      st\<lparr>session_df := (session_df st)[idx := log_maintenance_columns form (session_df st ! idx)]\<rparr>)"
  using assms by (simp add: log_maintenance_submit_def Let_def)

lemma log_maintenance_submit_returns:
  assumes "asset_id \<noteq> []"
    and "first_index (\<lambda>r. Asset_ID r = asset_id) (session_df st) = Some idx"
    and "7 \<le> Maintenance_Interval_Days (session_df st ! idx)"
    and "Maintenance_Interval_Days (session_df st ! idx) \<le> 365"
    and "\<not> (strict \<and> Notes_dtype st = Float64)"
  shows "\<exists>st'. log_maintenance_submit strict to_excel asset_id form st = (None, st') \<and>
           session_df st' =
             (session_df st)[idx := log_maintenance_row form (session_df st ! idx)] \<and>
           Notes_dtype st' = Object"
  using assms
  by (auto simp: log_maintenance_submit_def Let_def save_data_cases st_error_def
        st_success_def st_rerun_def split: prod.splits option.splits bool.splits)


lemma example_form_date:
  "Timestamp_of_date (maintenance_date example_maintenance_form) = 1709942400000000000"
  by (simp add: example_maintenance_form_def Timestamp_of_date_def toordinal_def
        days_before_year_def days_before_month_def days_in_month_def is_leap_def
        NS_PER_DAY_def upt_rec)



text \<open>
  The frame of the handler where the assignment of the note is accepted: the first row
  with the asset id gets the interval of the form, the two dates, the status and the
  note; its other columns and all other rows stay.
\<close>

lemma log_maintenance_frame:
  assumes "asset_id \<noteq> []"
    and "first_index (\<lambda>r. Asset_ID r = asset_id) (session_df st) = Some idx"
    and "7 \<le> Maintenance_Interval_Days (session_df st ! idx)"
    and "Maintenance_Interval_Days (session_df st ! idx) \<le> 365"
    and "\<not> (strict \<and> Notes_dtype st = Float64)"
  shows "\<exists>st'. log_maintenance_submit strict to_excel asset_id form st = (None, st') \<and>
     length (session_df st') = length (session_df st) \<and>
     (\<forall>j < length (session_df st). j \<noteq> idx \<longrightarrow> session_df st' ! j = session_df st ! j) \<and>
     (let old = session_df st ! idx; new = session_df st' ! idx;
          N = next_maintenance_interval form;
          D = Timestamp_of_date (maintenance_date form)
      in Maintenance_Interval_Days new = N \<and>
         Last_Maintenance new = Some D \<and>
         Next_Maintenance new = Some (D + N * NS_PER_DAY) \<and>
         Device_Status new = device_status_after form \<and>
         Notes new = Some ((case Notes old of Some s \<Rightarrow> s | None \<Rightarrow> []) @
            CHR 0x0A # ''['' @ isoformat (maintenance_date form) @ ''] '' @
            maintenance_type form @ '' - '' @ technician form @ '': '' @
            maintenance_notes form) \<and>
         new\<lparr> Maintenance_Interval_Days := Maintenance_Interval_Days old,
              Last_Maintenance := Last_Maintenance old,
              Next_Maintenance := Next_Maintenance old,
              Device_Status := Device_Status old,
              Notes := Notes old \<rparr> = old)"
proof -
  from log_maintenance_submit_returns [OF assms] obtain st' where
    st': "log_maintenance_submit strict to_excel asset_id form st = (None, st')"
         "session_df st' = (session_df st)[idx := log_maintenance_row form (session_df st ! idx)]"
    by blast
  from first_index_SomeD [OF assms(2)] have idx: "idx < length (session_df st)" by auto
  have r: "session_df st' ! idx = log_maintenance_row form (session_df st ! idx)"
    using st'(2) idx by simp
  have others: "\<forall>j < length (session_df st). j \<noteq> idx \<longrightarrow> session_df st' ! j = session_df st ! j"
    using st'(2) by simp
  have len: "length (session_df st') = length (session_df st)"
    using st'(2) by simp
  have row: "let old = session_df st ! idx; new = session_df st' ! idx;
          N = next_maintenance_interval form;
          D = Timestamp_of_date (maintenance_date form)
      in Maintenance_Interval_Days new = N \<and>
         Last_Maintenance new = Some D \<and>
         Next_Maintenance new = Some (D + N * NS_PER_DAY) \<and>
         Device_Status new = device_status_after form \<and>
         Notes new = Some ((case Notes old of Some s \<Rightarrow> s | None \<Rightarrow> []) @
            CHR 0x0A # ''['' @ isoformat (maintenance_date form) @ ''] '' @
            maintenance_type form @ '' - '' @ technician form @ '': '' @
            maintenance_notes form) \<and>
         new\<lparr> Maintenance_Interval_Days := Maintenance_Interval_Days old,
              Last_Maintenance := Last_Maintenance old,
              Next_Maintenance := Next_Maintenance old,
              Device_Status := Device_Status old,
              Notes := Notes old \<rparr> = old"
    unfolding r
    by (simp add: Let_def log_maintenance_row_def log_maintenance_note_def
          log_maintenance_columns_def new_note_def timedelta_of_days_def)
  from st'(1) len others row show ?thesis by blast
qed

text \<open>
  C9. A sheet whose column of notes is there and empty in every row is read with that
  column as \<^verbatim>\<open>float64\<close>. Under a library that refuses text in such a column, logging a
  maintenance for its device sets the interval, the two dates and the status, and then
  raises \<^verbatim>\<open>TypeError\<close> at the assignment of the note: the note is not appended, nothing is
  written to the file and no message is shown. Under a library that only warns, the
  same submission appends the note.
\<close>

theorem log_maintenance_note_lost:
  "start_session (Inr [stored_device.truncate (example_device\<lparr>Notes := None\<rparr>)]) blank_state
     = empty_notes_state \<and>
   Notes_dtype empty_notes_state = Float64 \<and>
   log_maintenance_submit True ok_writer ''KHL-PHC-001'' example_maintenance_form
       empty_notes_state =
     (Some TypeError,
      empty_notes_state
        \<lparr>session_df :=
           [log_maintenance_columns example_maintenance_form
              (example_device\<lparr>Notes := None\<rparr>)]\<rparr>) \<and>
   Maintenance_Interval_Days
     (log_maintenance_columns example_maintenance_form (example_device\<lparr>Notes := None\<rparr>)) = 30 \<and>
   Last_Maintenance
     (log_maintenance_columns example_maintenance_form (example_device\<lparr>Notes := None\<rparr>))
     = Some 1709942400000000000 \<and>
   Notes (log_maintenance_columns example_maintenance_form (example_device\<lparr>Notes := None\<rparr>))
     = None \<and>
   fs empty_notes_state = None \<and> notices empty_notes_state = [] \<and>
   fst (log_maintenance_submit False ok_writer ''KHL-PHC-001'' example_maintenance_form
          empty_notes_state) = None \<and>
   Notes (session_df (snd (log_maintenance_submit False ok_writer ''KHL-PHC-001''
      example_maintenance_form empty_notes_state)) ! 0)
     = Some (CHR 0x0A # ''[2024-03-09] '' @ type_calibration @ '' - Sami: ok'')"
proof -
  have reach: "start_session (Inr [stored_device.truncate (example_device\<lparr>Notes := None\<rparr>)])
      blank_state = empty_notes_state"
    by code_simp
  have f: "first_index (\<lambda>r. Asset_ID r = ''KHL-PHC-001'') (session_df empty_notes_state)
      = Some 0"
    by (simp add: empty_notes_state_def example_device_def)
  have lo: "7 \<le> Maintenance_Interval_Days (session_df empty_notes_state ! 0)"
    and hi: "Maintenance_Interval_Days (session_df empty_notes_state ! 0) \<le> 365"
    by (simp_all add: empty_notes_state_def example_device_def)
  have dt: "Notes_dtype empty_notes_state = Float64"
    by (simp add: empty_notes_state_def)
  have raise: "log_maintenance_submit True ok_writer ''KHL-PHC-001'' example_maintenance_form
       empty_notes_state =
     (Some TypeError,
      empty_notes_state
        \<lparr>session_df :=
           [log_maintenance_columns example_maintenance_form
              (example_device\<lparr>Notes := None\<rparr>)]\<rparr>)"
    using log_maintenance_submit_raises
      [OF _ f lo hi, where strict = True and to_excel = ok_writer and
        form = example_maintenance_form] dt
    by (simp add: empty_notes_state_def)
  have cols: "Maintenance_Interval_Days
     (log_maintenance_columns example_maintenance_form (example_device\<lparr>Notes := None\<rparr>)) = 30"
    "Last_Maintenance
     (log_maintenance_columns example_maintenance_form (example_device\<lparr>Notes := None\<rparr>))
     = Some 1709942400000000000"
    "Notes (log_maintenance_columns example_maintenance_form (example_device\<lparr>Notes := None\<rparr>))
     = None"
    by (simp_all add: log_maintenance_columns_def example_form_date)
       (simp_all add: example_maintenance_form_def)
  have iso: "isoformat (maintenance_date example_maintenance_form) = ''2024-03-09''"
    by code_simp
  have old: "Notes (session_df empty_notes_state ! 0) = None"
    by (simp add: empty_notes_state_def)
  from log_maintenance_frame
    [OF _ f lo hi, where strict = False and to_excel = ok_writer and
      form = example_maintenance_form]
  have warn: "fst (log_maintenance_submit False ok_writer ''KHL-PHC-001''
        example_maintenance_form empty_notes_state) = None \<and>
      Notes (session_df (snd (log_maintenance_submit False ok_writer ''KHL-PHC-001''
        example_maintenance_form empty_notes_state)) ! 0)
       = Some (CHR 0x0A # ''[2024-03-09] '' @ type_calibration @ '' - Sami: ok'')"
    unfolding Let_def iso old
    by (auto simp: example_maintenance_form_def)
  from reach dt raise cols warn show ?thesis
    by (simp add: empty_notes_state_def)
qed

section \<open>One interval for an equipment type\<close>


lemma reschedule_at_update: "reschedule_at n df idx = df[idx := reschedule n (df ! idx)]"
  by (simp add: reschedule_at_def reschedule_def split: option.splits)

lemma length_foldl_reschedule_at [simp]:
  "length (foldl (reschedule_at n) df idxs) = length df"
  by (induction idxs arbitrary: df) (simp_all add: reschedule_at_update)



lemma length_apply_interval [simp]: "length (apply_interval sel n df) = length df"
  by (simp add: apply_interval_def set_interval_def)





section \<open>The next asset id\<close>

lemma split_on_not_Nil [simp]: "split_on sep s \<noteq> []"
  by (induction s) (auto split: list.splits)

lemma split_on_append:
  "split_on sep (a @ sep # b) = split_on sep a @ split_on sep b"
proof (induction a)
  case Nil
  show ?case by simp
next
  case (Cons c a)
  obtain w ws where w: "split_on sep a = w # ws"
    by (cases "split_on sep a") simp_all
  show ?case using Cons w by simp
qed










lemma format_0d_raises:
  "int_max_str_digits < length (decimal (nat \<bar>n\<bar>)) \<Longrightarrow> format_0d w n = Inl ValueError"
  by (simp add: format_0d_def Let_def)

lemma new_asset_id_raises:
  "int_max_str_digits
     < length (decimal (nat \<bar>scan_max_num (existing_ids df code) + 1\<bar>)) \<Longrightarrow>
   new_asset_id code df = Inl ValueError"
  by (simp add: new_asset_id_def format_0d_raises)






section \<open>The table of health centers\<close>

lemma foldl_dict_of:
  "foldl (\<lambda>m (k, v). m(k \<mapsto> v)) m kvs = m ++ map_of (rev kvs)"
proof (induction kvs arbitrary: m)
  case Nil
  show ?case by simp
next
  case (Cons kv kvs)
  obtain k v where kv: "kv = (k, v)" by (cases kv)
  have "m(k \<mapsto> v) ++ map_of (rev kvs) = m ++ (map_of [(k, v)] ++ map_of (rev kvs))"
    by (simp add: map_add_assoc [symmetric])
  moreover have "foldl (\<lambda>m (k, v). m(k \<mapsto> v)) m (kv # kvs)
      = foldl (\<lambda>m (k, v). m(k \<mapsto> v)) (m(k \<mapsto> v)) kvs"
    by (simp only: foldl_Cons kv case_prod_conv)
  moreover have "map_of (rev (kv # kvs)) = map_of [(k, v)] ++ map_of (rev kvs)"
    by (simp only: rev.simps kv map_of_append)
  ultimately show ?case
    by (simp only: Cons.IH)
qed

lemma dict_of_map_of: "dict_of kvs = map_of (rev kvs)"
  by (simp add: dict_of_def foldl_dict_of)

lemma dict_of_Some_iff:
  "distinct (map fst kvs) \<Longrightarrow> dict_of kvs k = Some v \<longleftrightarrow> (k, v) \<in> set kvs"
  by (simp add: dict_of_map_of rev_map [symmetric])

lemma card_dom_dict_of:
  "distinct (map fst kvs) \<Longrightarrow> card (dom (dict_of kvs)) = length kvs"
proof -
  assume d: "distinct (map fst kvs)"
  have "dom (dict_of kvs) = set (map fst kvs)"
    by (simp add: dict_of_map_of dom_map_of_conv_image_fst)
  then show ?thesis using distinct_card [OF d] by simp
qed

lemma CENTERS_length: "length CENTERS = 25"
  by (simp add: CENTERS_def)

lemma CENTERS_names_distinct: "distinct (map fst CENTERS)"
  by code_simp

lemma CENTERS_codes_distinct: "distinct (map snd CENTERS)"
  by code_simp

lemma CENTERS_code_shape: "list_all (\<lambda>(name, code). code_shape code) CENTERS"
  by code_simp

lemma CENTERS_codes_split:
  "list_all (\<lambda>(name, code). length (split_on CHR ''-'' code) = 2 \<and>
      str_join ''-'' (split_on CHR ''-'' code) = code) CENTERS"
  by code_simp

lemma rev_keys: "map fst (map (\<lambda>(name, code). (name, code)) CENTERS) = map fst CENTERS"
  by (simp add: case_prod_unfold)

lemma fwd_keys: "map fst (map (\<lambda>(name, code). (code, name)) CENTERS) = map snd CENTERS"
  by (simp add: case_prod_unfold)

lemma CENTERS_DICT_REV_iff:
  "CENTERS_DICT_REV name = Some code \<longleftrightarrow> (name, code) \<in> set CENTERS"
proof -
  have "distinct (map fst (map (\<lambda>(name, code). (name, code)) CENTERS))"
    by (simp only: rev_keys CENTERS_names_distinct)
  then show ?thesis
    unfolding CENTERS_DICT_REV_def by (auto simp: dict_of_Some_iff)
qed

lemma CENTERS_DICT_iff:
  "CENTERS_DICT code = Some name \<longleftrightarrow> (name, code) \<in> set CENTERS"
proof -
  have "distinct (map fst (map (\<lambda>(name, code). (code, name)) CENTERS))"
    by (simp only: fwd_keys CENTERS_codes_distinct)
  then show ?thesis
    unfolding CENTERS_DICT_def by (auto simp: dict_of_Some_iff)
qed

lemma card_dom_CENTERS_DICT_REV: "card (dom CENTERS_DICT_REV) = 25"
proof -
  have "distinct (map fst (map (\<lambda>(name, code). (name, code)) CENTERS))"
    by (simp only: rev_keys CENTERS_names_distinct)
  from card_dom_dict_of [OF this] show ?thesis
    by (simp add: CENTERS_DICT_REV_def CENTERS_length)
qed

lemma card_dom_CENTERS_DICT: "card (dom CENTERS_DICT) = 25"
proof -
  have "distinct (map fst (map (\<lambda>(name, code). (code, name)) CENTERS))"
    by (simp only: fwd_keys CENTERS_codes_distinct)
  from card_dom_dict_of [OF this] show ?thesis
    by (simp add: CENTERS_DICT_def CENTERS_length)
qed

lemma center_code_of_new_asset_id:
  assumes "(name, code) \<in> set CENTERS" and "new_asset_id code df = Inr asset_id"
  shows "center_code_of asset_id = code"
proof -
  from assms(1) CENTERS_codes_split
  have two: "length (split_on CHR ''-'' code) = 2"
    and join: "str_join ''-'' (split_on CHR ''-'' code) = code"
    by (auto simp: list_all_iff)
  obtain sfx where id: "asset_id = code @ CHR ''-'' # sfx"
    using assms(2) by (auto simp: new_asset_id_def split: sum.splits)
  have "take 2 (split_on CHR ''-'' (code @ CHR ''-'' # sfx)) = split_on CHR ''-'' code"
    using two by (simp add: split_on_append)
  then show ?thesis using join by (simp add: center_code_of_def id)
qed

text \<open>
  C6 (as amended). The table has 25 entries, with 25 different names and 25 different
  codes, and each code is three capital letters followed by \<^verbatim>\<open>-PHC\<close>. The dictionary
  from names to codes, used to allocate an asset id, and the dictionary from codes to
  names, used to show the center of a loaded row, hold exactly the pairs of the table and
  are inverse to each other. Together: a row that carries the asset id allocated for a
  center is shown, when loaded, with the code and the name of that center.
\<close>

theorem CENTERS_table:
  "length CENTERS = 25 \<and>
   distinct (map fst CENTERS) \<and> distinct (map snd CENTERS) \<and>
   card (dom CENTERS_DICT_REV) = 25 \<and> card (dom CENTERS_DICT) = 25 \<and>
   (\<forall>name code. CENTERS_DICT_REV name = Some code \<longleftrightarrow> (name, code) \<in> set CENTERS) \<and>
   (\<forall>name code. CENTERS_DICT_REV name = Some code \<longleftrightarrow> CENTERS_DICT code = Some name) \<and>
   (\<forall>name code. CENTERS_DICT_REV name = Some code \<longrightarrow> code_shape code) \<and>
   (\<forall>name code df r. CENTERS_DICT_REV name = Some code \<and> new_asset_id code df = Inr (Asset_ID r) \<longrightarrow>
      Center_Code (add_center_columns r) = Some code \<and>
      Center_Name (add_center_columns r) = Some name)"
proof -
  have shape: "\<forall>name code. CENTERS_DICT_REV name = Some code \<longrightarrow> code_shape code"
    using CENTERS_code_shape by (auto simp: CENTERS_DICT_REV_iff list_all_iff)
  have inv: "\<forall>name code. CENTERS_DICT_REV name = Some code \<longleftrightarrow> CENTERS_DICT code = Some name"
    by (simp add: CENTERS_DICT_REV_iff CENTERS_DICT_iff)
  have trip: "\<forall>name code df r.
      CENTERS_DICT_REV name = Some code \<and> new_asset_id code df = Inr (Asset_ID r) \<longrightarrow>
      Center_Code (add_center_columns r) = Some code \<and>
      Center_Name (add_center_columns r) = Some name"
  proof (intro allI impI)
    fix name code df and r :: stored_device
    assume a: "CENTERS_DICT_REV name = Some code \<and> new_asset_id code df = Inr (Asset_ID r)"
    then have mem: "(name, code) \<in> set CENTERS" by (simp add: CENTERS_DICT_REV_iff)
    have cc: "center_code_of (Asset_ID r) = code"
      using a center_code_of_new_asset_id [OF mem] by blast
    have "CENTERS_DICT code = Some name" using mem by (simp add: CENTERS_DICT_iff)
    then show "Center_Code (add_center_columns r) = Some code \<and>
      Center_Name (add_center_columns r) = Some name"
      by (simp add: add_center_columns_def Let_def cc stored_device.extend_def)
  qed
  from CENTERS_length CENTERS_names_distinct CENTERS_codes_distinct
    card_dom_CENTERS_DICT_REV card_dom_CENTERS_DICT CENTERS_DICT_REV_iff inv shape trip
  show ?thesis by blast
qed

theorem CENTERS_table_witness:
  "CENTERS_DICT_REV (fst (hd CENTERS)) = Some ''KHL-PHC'' \<and>
   new_asset_id ''KHL-PHC'' [] = Inr (Asset_ID (stored_device.truncate example_device)) \<and>
   CENTERS_DICT ''KHL-PHC'' = Some (fst (hd CENTERS)) \<and>
   code_shape ''KHL-PHC'' \<and>
   Center_Code (add_center_columns (stored_device.truncate example_device))
     = Some ''KHL-PHC'' \<and>
   Center_Name (add_center_columns (stored_device.truncate example_device))
     = Some (fst (hd CENTERS))"
proof -
  have rev: "CENTERS_DICT_REV (fst (hd CENTERS)) = Some ''KHL-PHC''"
    by code_simp
  have id: "new_asset_id ''KHL-PHC'' [] = Inr (Asset_ID (stored_device.truncate example_device))"
    by code_simp
  from CENTERS_table rev id show ?thesis by blast
qed

text \<open>
  The claim as it was written calls the codes three letters long. A code of the table
  has seven characters, and its first three letters alone are no key of the dictionary.
\<close>

theorem CENTERS_counterexample:
  "snd (hd CENTERS) = ''KHL-PHC'' \<and> length (snd (hd CENTERS)) = 7 \<and>
   CENTERS_DICT ''KHL'' = None \<and> CENTERS_DICT ''KHL-PHC'' = Some (fst (hd CENTERS))"
  by code_simp

section \<open>Failures of saving and restoring\<close>




text \<open>
  C8. When reading the uploaded backup raises, restoring adds an error notice and
  changes nothing else: the data frame of the session is the one before. When reading
  succeeds, the rows read replace the data frame. The data frame changes only if the
  reading succeeded, and then to the rows read.
\<close>

theorem restore_all_or_nothing:
  "restore_submit (Inl e) st = st\<lparr>notices := notices st @ [St_error (Restore_failed e)]\<rparr> \<and>
   session_df (restore_submit (Inl e) st) = session_df st \<and>
   session_df (restore_submit (Inr restored_df) st) = restored_df \<and>
   (session_df (restore_submit read_excel st) \<noteq> session_df st \<longrightarrow>
      (\<exists>rows. read_excel = Inr rows \<and> session_df (restore_submit read_excel st) = rows))"
  by (cases read_excel)
     (simp_all add: restore_submit_def st_error_def st_success_def st_rerun_def)

theorem restore_all_or_nothing_witness:
  "session_df (restore_submit (Inr []) example_state) \<noteq> session_df example_state \<and>
   (\<exists>rows. (Inr [] :: exn + device list) = Inr rows \<and>
      session_df (restore_submit (Inr []) example_state) = rows) \<and>
   session_df (restore_submit (Inl ''BadZipFile'') example_state) = [example_device]"
proof -
  have ne: "session_df (restore_submit (Inr []) example_state) \<noteq> session_df example_state"
    by (simp add: restore_submit_def st_success_def st_rerun_def example_state_def)
  have "session_df (restore_submit (Inl ''BadZipFile'') example_state)
      = session_df example_state"
    using restore_all_or_nothing [of "''BadZipFile''" example_state] by blast
  then have keep: "session_df (restore_submit (Inl ''BadZipFile'') example_state)
      = [example_device]"
    by (simp add: example_state_def)
  from restore_all_or_nothing [of _ example_state _ "Inr []"] ne keep
  show ?thesis by blast
qed

section \<open>The dashboard\<close>

lemma overdue_days_negative: "t < now \<Longrightarrow> Timedelta_days (t - now) < 0"
  using NS_PER_DAY_pos div_neg_pos_less0 [of "t - now" NS_PER_DAY]
  by (simp add: Timedelta_days_def)

lemma apply_filters_filter:
  "apply_filters flt df =
     filter (\<lambda>r. (selected_centers flt = [] \<or> isin (Center_Name r) (selected_centers flt)) \<and>
                 (selected_departments flt = [] \<or>
                    isin (Scientific_Department r) (selected_departments flt)) \<and>
                 (status_filter flt = [] \<or> Device_Status r \<in> set (status_filter flt))) df"
  by (simp add: apply_filters_def Let_def conj_commute)

lemma urgent_rows_filter:
  "urgent_rows now dff =
     filter (\<lambda>r. \<exists>t. Next_Maintenance r = Some t \<and> Timedelta_days (t - now) \<le> 7 \<and> now \<le> t) dff"
  unfolding urgent_rows_def by (rule filter_cong) (auto split: option.splits)

lemma sorts_by_next_set: "sorts_by_next sort_values \<Longrightarrow> set (sort_values xs) = set xs"
  unfolding sorts_by_next_def by (metis mset_eq_setD)

lemma sorts_by_next_single: "sorts_by_next sort_values \<Longrightarrow> sort_values [x] = [x]"
proof -
  assume "sorts_by_next sort_values"
  then have "mset (sort_values [x]) = {#x#}"
    by (simp add: sorts_by_next_def)
  then show ?thesis by (simp add: mset_single_iff_right)
qed

lemma sorts_by_next_sort_key: "sorts_by_next (sort_key next_maintenance_key)"
  by (simp add: sorts_by_next_def)

lemma urgent_devices_sel:
  assumes "sorts_by_next sort_values"
  shows "mset (urgent_devices sort_values now dff) =
           mset (filter (\<lambda>r. \<exists>t. Next_Maintenance r = Some t \<and> Timedelta_days (t - now) \<le> 7) dff) \<and>
         sorted (map next_maintenance_key (urgent_devices sort_values now dff))"
proof -
  have eq: "filter (\<lambda>r. case Next_Maintenance r of None \<Rightarrow> False
                        | Some t \<Rightarrow> Timedelta_days (t - now) \<le> 7) dff =
      filter (\<lambda>r. \<exists>t. Next_Maintenance r = Some t \<and> Timedelta_days (t - now) \<le> 7) dff"
    by (rule filter_cong) (auto split: option.splits)
  show ?thesis
    using assms unfolding urgent_devices_def eq sorts_by_next_def by blast
qed

text \<open>
  C10. For a sort that orders by date, the dashboard counts as urgent the filtered rows
  due within 7 days and not before now, and, when the chart of the centers is drawn,
  shows as needing maintenance at once the first ten, by date, of the filtered rows due
  within 7 days, with no lower bound; when no filtered row has a center name the chart
  raises and there is no table. Every overdue row is selected for the table and not
  counted; when at most ten rows are selected, an overdue row is in the table shown and
  not among the rows counted. For one overdue device the count is 0 and the table holds
  the device.
\<close>

theorem urgent_table_exceeds_urgent_count:
  assumes "sorts_by_next sort_values"
  shows "let dff = filter (\<lambda>r.
               (selected_centers flt = [] \<or> isin (Center_Name r) (selected_centers flt)) \<and>
               (selected_departments flt = [] \<or>
                  isin (Scientific_Department r) (selected_departments flt)) \<and>
               (status_filter flt = [] \<or> Device_Status r \<in> set (status_filter flt))) df;
             in_table = (\<lambda>r. \<exists>t. Next_Maintenance r = Some t \<and> Timedelta_days (t - now) \<le> 7);
             counted = (\<lambda>r. \<exists>t. Next_Maintenance r = Some t \<and>
                              Timedelta_days (t - now) \<le> 7 \<and> now \<le> t);
             d = show_dashboard sort_values flt now df
         in urgent d = length (filter counted dff) \<and>
            ((\<exists>r \<in> set dff. Center_Name r \<noteq> None) \<longrightarrow>
               (\<exists>sel. urgent_table d = Inr (take 10 sel) \<and>
                      mset sel = mset (filter in_table dff) \<and>
                      sorted (map next_maintenance_key sel))) \<and>
            ((\<forall>r \<in> set dff. Center_Name r = None) \<longrightarrow> urgent_table d = Inl ChartError) \<and>
            (\<forall>r t. r \<in> set dff \<and> Next_Maintenance r = Some t \<and> t < now \<longrightarrow>
               in_table r \<and> \<not> counted r) \<and>
            (\<forall>r t. r \<in> set dff \<and> Next_Maintenance r = Some t \<and> t < now \<and>
                  (\<exists>r' \<in> set dff. Center_Name r' \<noteq> None) \<and>
                  length (filter in_table dff) \<le> 10 \<longrightarrow>
               (\<exists>rows. urgent_table d = Inr rows \<and> r \<in> set rows \<and>
                       r \<notin> set (filter counted dff))) \<and>
            urgent (show_dashboard sort_values default_filters 0 [overdue_device]) = 0 \<and>
            urgent_table (show_dashboard sort_values default_filters 0 [overdue_device])
              = Inr [overdue_device]"
proof -
  define dff where "dff = apply_filters flt df"
  define in_table where
    "in_table = (\<lambda>r::device. \<exists>t. Next_Maintenance r = Some t \<and> Timedelta_days (t - now) \<le> 7)"
  define counted where
    "counted = (\<lambda>r::device. \<exists>t. Next_Maintenance r = Some t \<and>
        Timedelta_days (t - now) \<le> 7 \<and> now \<le> t)"
  define d where "d = show_dashboard sort_values flt now df"
  define sel where "sel = urgent_devices sort_values now dff"
  have sel: "mset sel = mset (filter in_table dff)" "sorted (map next_maintenance_key sel)"
    using urgent_devices_sel [OF assms, of now dff] by (simp_all add: sel_def in_table_def)
  have set_sel: "set sel = {r \<in> set dff. in_table r}"
    using sel(1) by (metis mset_eq_setD set_filter)
  have len_sel: "length sel = length (filter in_table dff)"
    using sel(1) by (metis size_mset)
  have count: "urgent d = length (filter counted dff)"
    by (simp add: d_def show_dashboard_def Let_def dff_def urgent_rows_filter counted_def)
  have table: "urgent_table d =
      (if list_all (\<lambda>r. Center_Name r = None) dff then Inl ChartError else Inr (take 10 sel))"
    by (simp add: d_def show_dashboard_def Let_def dff_def sel_def)
  have drawn: "(\<exists>r \<in> set dff. Center_Name r \<noteq> None) \<longrightarrow>
      (\<exists>sel. urgent_table d = Inr (take 10 sel) \<and> mset sel = mset (filter in_table dff) \<and>
             sorted (map next_maintenance_key sel))"
    using table sel by (auto simp: list_all_iff)
  have raised: "(\<forall>r \<in> set dff. Center_Name r = None) \<longrightarrow> urgent_table d = Inl ChartError"
    using table by (simp add: list_all_iff)
  have late: "\<forall>r t. r \<in> set dff \<and> Next_Maintenance r = Some t \<and> t < now \<longrightarrow>
      in_table r \<and> \<not> counted r"
  proof (intro allI impI)
    fix r t
    assume a: "r \<in> set dff \<and> Next_Maintenance r = Some t \<and> t < now"
    then have "Timedelta_days (t - now) \<le> 7"
      using overdue_days_negative [of t now] by simp
    with a show "in_table r \<and> \<not> counted r"
      by (auto simp: in_table_def counted_def)
  qed
  have shown: "\<forall>r t. r \<in> set dff \<and> Next_Maintenance r = Some t \<and> t < now \<and>
        (\<exists>r' \<in> set dff. Center_Name r' \<noteq> None) \<and> length (filter in_table dff) \<le> 10 \<longrightarrow>
      (\<exists>rows. urgent_table d = Inr rows \<and> r \<in> set rows \<and> r \<notin> set (filter counted dff))"
  proof (intro allI impI)
    fix r t
    assume a: "r \<in> set dff \<and> Next_Maintenance r = Some t \<and> t < now \<and>
        (\<exists>r' \<in> set dff. Center_Name r' \<noteq> None) \<and> length (filter in_table dff) \<le> 10"
    then have "in_table r" "\<not> counted r" using late by blast+
    moreover have "urgent_table d = Inr sel"
      using a table len_sel by (auto simp: list_all_iff)
    ultimately show "\<exists>rows. urgent_table d = Inr rows \<and> r \<in> set rows \<and>
        r \<notin> set (filter counted dff)"
      using a set_sel by auto
  qed
  have one: "apply_filters default_filters [overdue_device] = [overdue_device]"
    by (simp add: apply_filters_def default_filters_def overdue_device_def example_device_def
          Let_def)
  have name: "Center_Name overdue_device \<noteq> None"
    by (simp add: overdue_device_def example_device_def)
  have nm: "Next_Maintenance overdue_device = Some (- 1)"
    by (simp add: overdue_device_def)
  have days: "Timedelta_days (- 1 - 0) \<le> 7"
    by (simp add: Timedelta_days_def NS_PER_DAY_def)
  have ex_count: "urgent (show_dashboard sort_values default_filters 0 [overdue_device]) = 0"
    by (simp add: show_dashboard_def Let_def one urgent_rows_def nm)
  have ex_table: "urgent_table (show_dashboard sort_values default_filters 0 [overdue_device])
      = Inr [overdue_device]"
    using name days
    by (simp add: show_dashboard_def Let_def one urgent_devices_def nm
          sorts_by_next_single [OF assms])
  from count drawn raised late shown ex_count ex_table
  show ?thesis
    unfolding Let_def dff_def [symmetric]
    unfolding dff_def apply_filters_filter in_table_def counted_def d_def
    by blast
qed

theorem urgent_table_exceeds_urgent_count_witness:
  "sorts_by_next (sort_key next_maintenance_key) \<and>
   overdue_device \<in> set [overdue_device] \<and>
   Next_Maintenance overdue_device = Some (- 1) \<and> (- 1 :: int) < 0 \<and>
   Center_Name overdue_device \<noteq> None \<and>
   fst (calculate_maintenance_status overdue_device 0) = Overdue \<and>
   urgent (show_dashboard (sort_key next_maintenance_key) default_filters 0
             [overdue_device]) = 0 \<and>
   (\<exists>rows. urgent_table (show_dashboard (sort_key next_maintenance_key) default_filters 0
             [overdue_device]) = Inr rows \<and> overdue_device \<in> set rows) \<and>
   urgent_table (show_dashboard (sort_key next_maintenance_key) default_filters 0
             [overdue_device\<lparr>Center_Name := None\<rparr>]) = Inl ChartError"
proof -
  let ?sv = "sort_key next_maintenance_key"
  let ?df = "[overdue_device]"
  let ?blank = "[overdue_device\<lparr>Center_Name := None\<rparr>]"
  have nm: "Next_Maintenance overdue_device = Some (- 1)"
    by (simp add: overdue_device_def example_device_def)
  have name: "Center_Name overdue_device \<noteq> None"
    by (simp add: overdue_device_def example_device_def)
  have status: "Device_Status overdue_device = status_working"
    by (simp add: overdue_device_def example_device_def)
  have dff: "filter (\<lambda>r.
       (selected_centers default_filters = [] \<or>
          isin (Center_Name r) (selected_centers default_filters)) \<and>
       (selected_departments default_filters = [] \<or>
          isin (Scientific_Department r) (selected_departments default_filters)) \<and>
       (status_filter default_filters = [] \<or>
          Device_Status r \<in> set (status_filter default_filters))) ?df = ?df"
    by (simp add: default_filters_def status)
  have dff': "filter (\<lambda>r.
       (selected_centers default_filters = [] \<or>
          isin (Center_Name r) (selected_centers default_filters)) \<and>
       (selected_departments default_filters = [] \<or>
          isin (Scientific_Department r) (selected_departments default_filters)) \<and>
       (status_filter default_filters = [] \<or>
          Device_Status r \<in> set (status_filter default_filters))) ?blank = ?blank"
    by (simp add: default_filters_def status)
  note T = urgent_table_exceeds_urgent_count
    [OF sorts_by_next_sort_key, where flt = default_filters and now = 0 and df = ?df,
      unfolded Let_def dff]
  note U = urgent_table_exceeds_urgent_count
    [OF sorts_by_next_sort_key, where flt = default_filters and now = 0 and df = ?blank,
      unfolded Let_def dff']
  have prem: "overdue_device \<in> set ?df \<and> Next_Maintenance overdue_device = Some (- 1) \<and>
      (- 1 :: int) < 0 \<and> (\<exists>r' \<in> set ?df. Center_Name r' \<noteq> None) \<and>
      length (filter (\<lambda>r. \<exists>t. Next_Maintenance r = Some t \<and> Timedelta_days (t - 0) \<le> 7) ?df)
        \<le> 10"
    using nm name by simp
  have shown: "\<exists>rows. urgent_table (show_dashboard ?sv default_filters 0 ?df) = Inr rows \<and>
      overdue_device \<in> set rows"
    using T [THEN conjunct2, THEN conjunct2, THEN conjunct2, THEN conjunct2, THEN conjunct1,
        rule_format, OF prem]
    by blast
  have count: "urgent (show_dashboard ?sv default_filters 0 ?df) = 0"
    using T [THEN conjunct2, THEN conjunct2, THEN conjunct2, THEN conjunct2, THEN conjunct2,
        THEN conjunct1] .
  have chart: "urgent_table (show_dashboard ?sv default_filters 0 ?blank) = Inl ChartError"
    using U [THEN conjunct2, THEN conjunct2, THEN conjunct1] by simp
  have late: "fst (calculate_maintenance_status overdue_device 0) = Overdue"
    by (simp add: calculate_maintenance_status_def nm Timedelta_days_def NS_PER_DAY_def Let_def)
  from sorts_by_next_sort_key nm name count shown chart late show ?thesis by simp
qed

end
